theory Spec2Isabelle
  imports Main
begin

section \<open>Text as Python sees it\<close>

text \<open>
  The embedding follows \<^verbatim>\<open>src/utils/ledger_api.py\<close>. A \<^typ>\<open>char\<close> is a code point
  below 256 and a \<^typ>\<open>string\<close> a Python \<^verbatim>\<open>str\<close> of such code points. The whitespace
  of \<^verbatim>\<open>str.strip\<close>, \<^verbatim>\<open>str.rstrip\<close> and of \<^verbatim>\<open>\s\<close> in a regular expression is
  Python's \<^verbatim>\<open>str.isspace\<close> there: tab, line feed, vertical tab, form feed, carriage
  return, the four separators 0x1C to 0x1F, the space, the next-line control 0x85 and
  the no-break space 0xA0. The decimal digits of \<^verbatim>\<open>\d\<close> below 256 are \<^verbatim>\<open>0\<close> to \<^verbatim>\<open>9\<close>.

  A file stores text in UTF-8, in which only ASCII text has one byte for each code
  point. The content of a file is a \<^typ>\<open>string\<close> as well. The theorems that read a
  file's content back as text, for the round trip of append and revert and for the
  iteration over the lines of a file, assume that content to be ASCII
  (\<open>list_all isascii\<close>), so that the text, its bytes and the indices of the list agree.
\<close>

definition LF :: char where
  "LF = CHR 0x0A"

definition CR :: char where
  "CR = CHR 0x0D"

definition isascii :: "char \<Rightarrow> bool" where
  "isascii c = (of_char c < (128::nat))"

definition isspace :: "char \<Rightarrow> bool" where
  "isspace c = (c \<in> set [CHR 0x09, CHR 0x0A, CHR 0x0B, CHR 0x0C, CHR 0x0D,
                           CHR 0x1C, CHR 0x1D, CHR 0x1E, CHR 0x1F, CHR 0x20,
                           CHR 0x85, CHR 0xA0])"

definition isdigit :: "char \<Rightarrow> bool" where
  "isdigit c = (c \<in> set ''0123456789'')"

definition lstrip :: "string \<Rightarrow> string" where
  "lstrip s = dropWhile isspace s"

definition rstrip :: "string \<Rightarrow> string" where
  "rstrip s = rev (dropWhile isspace (rev s))"

definition strip :: "string \<Rightarrow> string" where
  "strip s = lstrip (rstrip s)"

text \<open>\<^verbatim>\<open>sep.join(xs)\<close>.\<close>

fun join :: "string \<Rightarrow> string list \<Rightarrow> string" where
  "join sep [] = []"
| "join sep [x] = x"
| "join sep (x # y # ys) = x @ sep @ join sep (y # ys)"

text \<open>The format specifications \<^verbatim>\<open><34s\<close> and \<^verbatim>\<open>>12\<close>: padding with spaces, never
  truncating.\<close>

definition ljust :: "nat \<Rightarrow> string \<Rightarrow> string" where
  "ljust w s = s @ replicate (w - length s) (CHR '' '')"

definition rjust :: "nat \<Rightarrow> string \<Rightarrow> string" where
  "rjust w s = replicate (w - length s) (CHR '' '') @ s"

text \<open>\<^verbatim>\<open>s.partition(" ")\<close>: the text before the first space, and the text after it (both
  parts of the triple the source keeps).\<close>

definition partition_space :: "string \<Rightarrow> string \<times> string" where
  "partition_space s =
     (takeWhile (\<lambda>c. c \<noteq> CHR '' '') s, drop 1 (dropWhile (\<lambda>c. c \<noteq> CHR '' '') s))"

text \<open>\<^verbatim>\<open>str.splitlines\<close>: a line ends at line feed, carriage return (with a line feed
  right after it as one boundary), vertical tab, form feed, the separators 0x1C, 0x1D,
  0x1E and the next-line control 0x85; the boundaries are dropped, and no empty last
  line is produced.\<close>

definition linebreak :: "char \<Rightarrow> bool" where
  "linebreak c = (c \<in> set [CHR 0x0A, CHR 0x0B, CHR 0x0C, CHR 0x0D, CHR 0x1C, CHR 0x1D, CHR 0x1E,
                             CHR 0x85])"

fun splitlines_from :: "string \<Rightarrow> string \<Rightarrow> string list" where
  "splitlines_from cur [] = (if cur = [] then [] else [cur])"
| "splitlines_from cur [c] = (if linebreak c then [cur] else [cur @ [c]])"
| "splitlines_from cur (c # d # cs) =
     (if c = CR \<and> d = LF then cur # splitlines_from [] cs
      else if linebreak c then cur # splitlines_from [] (d # cs)
      else splitlines_from (cur @ [c]) (d # cs))"

definition splitlines :: "string \<Rightarrow> string list" where
  "splitlines s = splitlines_from [] s"

text \<open>Reading a file opened in text mode (\<^verbatim>\<open>newline=None\<close>): a carriage return, alone or
  before a line feed, is read as one line feed. Writing on POSIX leaves the text as it
  is.\<close>

fun universal_newlines :: "string \<Rightarrow> string" where
  "universal_newlines [] = []"
| "universal_newlines [c] = (if c = CR then [LF] else [c])"
| "universal_newlines (c # d # cs) =
     (if c = CR \<and> d = LF then LF # universal_newlines cs
      else if c = CR then LF # universal_newlines (d # cs)
      else c # universal_newlines (d # cs))"

section \<open>Errors\<close>

text \<open>
  The exceptions the modelled code can raise. \<open>LedgerCliError\<close> is raised
  \<^verbatim>\<open>from\<close> the \<^verbatim>\<open>CalledProcessError\<close> of the failed process, which is kept as its cause.
  \<open>FloatOutsideModel\<close> is not a Python exception: it marks an amount whose conversion
  through \<^verbatim>\<open>float\<close> this development does not compute (see \<open>format_2f\<close>).
\<close>

record called_process_error =
  cmd :: "string list"
  returncode :: int
  stdout :: string
  stderr :: string

datatype error =
    ValueError
  | AttributeError
  | IndexError
  | TypeError
  | UnboundLocalError
  | CannotRevert
  | LedgerCliError called_process_error
  | FloatOutsideModel

section \<open>Entry\<close>

record entry_account =
  name :: string
  amount :: "string option"
  currency :: "string option"

record entry =
  payee :: string
  date :: string
  "note" :: "string option"
  accounts :: "entry_account list"

text \<open>
  One element of the \<^verbatim>\<open>accounts\<close> argument: a tuple of three, two or one elements, each
  a string or \<^verbatim>\<open>None\<close> (the name always a string), or a tuple of another length.
\<close>

datatype account_spec =
    Explicit string "string option" "string option"
  | Merged string "string option"
  | Bare string
  | OtherArity

text \<open>
  \<^verbatim>\<open>"{:.2f}".format(float(amount))\<close> on the plain decimal numerals: digits, then
  optionally a point and at most two digits, below \<open>10 ^ 13\<close>. There the nearest double is
  within 0.001 of the numeral, so the two decimals printed are the numeral's own,
  padded with zeros and without leading zeros. The empty string is a \<^verbatim>\<open>ValueError\<close>.
  Every other string (signs, exponents, underscores, surrounding blanks, \<^verbatim>\<open>inf\<close>,
  \<^verbatim>\<open>nan\<close>, more digits, and the strings \<^verbatim>\<open>float\<close> refuses) is outside the model.
\<close>

definition strip_zeros :: "string \<Rightarrow> string" where
  "strip_zeros ds = (let r = dropWhile (\<lambda>c. c = CHR ''0'') ds in if r = [] then ''0'' else r)"

definition format_2f :: "string \<Rightarrow> error + string" where
  "format_2f s =
     (let ip = takeWhile (\<lambda>c. c \<noteq> CHR ''.'') s;
          fp = drop 1 (dropWhile (\<lambda>c. c \<noteq> CHR ''.'') s)
      in if s = [] then Inl ValueError
         else if ip \<noteq> [] \<and> list_all isdigit ip \<and> list_all isdigit fp \<and> length fp \<le> 2
                 \<and> length (strip_zeros ip) \<le> 13
         then Inr (strip_zeros ip @ ''.'' @ fp @ replicate (2 - length fp) (CHR ''0''))
         else Inl FloatOutsideModel)"

text \<open>
  The body of the loop of \<^verbatim>\<open>Entry.__init__\<close>. The flag says whether the variable
  \<^verbatim>\<open>amount\<close> is bound already (it is from the second tuple on): a tuple of no accepted
  length raises \<^verbatim>\<open>ValueError\<close> in the innermost unpacking, and the \<^verbatim>\<open>finally\<close> block
  reads \<^verbatim>\<open>amount\<close> before that error leaves, so on the first tuple the error is
  \<^verbatim>\<open>UnboundLocalError\<close> instead. The two-element form calls \<^verbatim>\<open>partition\<close> on its
  second element, an \<^verbatim>\<open>AttributeError\<close> when that is \<^verbatim>\<open>None\<close>.
\<close>

definition finally_amount :: "string \<Rightarrow> string option \<Rightarrow> string option \<Rightarrow> error + entry_account" where
  "finally_amount n a c =
     (case a of
        None \<Rightarrow> Inr \<lparr>name = n, amount = None, currency = None\<rparr>
      | Some t \<Rightarrow>
          (case format_2f t of
             Inl e \<Rightarrow> Inl e
           | Inr t' \<Rightarrow> Inr \<lparr>name = n, amount = Some t', currency = c\<rparr>))"

fun prepare_account :: "bool \<Rightarrow> account_spec \<Rightarrow> error + entry_account" where
  "prepare_account bound (Explicit n a c) = finally_amount n a c"
| "prepare_account bound (Merged n None) = Inl AttributeError"
| "prepare_account bound (Merged n (Some t)) =
     finally_amount n (Some (fst (partition_space t))) (Some (snd (partition_space t)))"
| "prepare_account bound (Bare n) = finally_amount n None None"
| "prepare_account bound OtherArity = Inl (if bound then ValueError else UnboundLocalError)"

fun prepare_accounts :: "bool \<Rightarrow> account_spec list \<Rightarrow> error + entry_account list" where
  "prepare_accounts bound [] = Inr []"
| "prepare_accounts bound (a # as) =
     (case prepare_account bound a of
        Inl e \<Rightarrow> Inl e
      | Inr x \<Rightarrow>
          (case prepare_accounts True as of
             Inl e \<Rightarrow> Inl e
           | Inr xs \<Rightarrow> Inr (x # xs)))"

definition Entry_init :: "string \<Rightarrow> string \<Rightarrow> account_spec list \<Rightarrow> string option \<Rightarrow> error + entry" where
  "Entry_init p d specs n =
     (case prepare_accounts False specs of
        Inl e \<Rightarrow> Inl e
      | Inr xs \<Rightarrow> Inr \<lparr>payee = p, date = d, note = n, accounts = xs\<rparr>)"

subsection \<open>Currencies\<close>

datatype position = Left | Right

record currency_rule =
  symbol :: "string option"
  position :: position

definition currency_conversions :: "string \<rightharpoonup> currency_rule" where
  "currency_conversions =
     map_of [(''USD'', \<lparr>symbol = Some ''$'', position = Left\<rparr>),
             (''$'', \<lparr>symbol = Some ''$'', position = Left\<rparr>),
             ('''', \<lparr>symbol = Some '''', position = Left\<rparr>)]"

text \<open>\<^verbatim>\<open>currency_conversions.get(currency, "")\<close>: a rule of the table is a non-empty
  dictionary, so it is taken; the default \<^verbatim>\<open>""\<close> is not, and \<^verbatim>\<open>None\<close> is no key of the
  table.\<close>

definition normalize_currency :: "string option \<Rightarrow> currency_rule" where
  "normalize_currency cur =
     (case cur of
        None \<Rightarrow> \<lparr>symbol = None, position = Right\<rparr>
      | Some c \<Rightarrow>
          (case currency_conversions c of
             Some rule \<Rightarrow> rule
           | None \<Rightarrow> \<lparr>symbol = Some c, position = Right\<rparr>))"

subsection \<open>Rendering\<close>

text \<open>A replacement field \<^verbatim>\<open>{currency}\<close> given a string or \<^verbatim>\<open>None\<close>.\<close>

definition format_field :: "string option \<Rightarrow> string" where
  "format_field v = (case v of None \<Rightarrow> ''None'' | Some s \<Rightarrow> s)"

text \<open>The line \<^verbatim>\<open>Entry.__str__\<close> appends for one account.\<close>

definition account_line :: "entry_account \<Rightarrow> string" where
  "account_line a =
     (let rule = normalize_currency (currency a) in
      case amount a of
        None \<Rightarrow> ''    '' @ name a
      | Some amt \<Rightarrow>
          if position rule = Left
          then ''    '' @ ljust 34 (name a) @ ''  '' @ rjust 12 (format_field (symbol rule) @ amt)
          else ''    '' @ ljust 34 (name a) @ ''  '' @ rjust 12 amt @ '' '' @ format_field (symbol rule))"

definition note_lines :: "string option \<Rightarrow> string list" where
  "note_lines n =
     (case n of
        None \<Rightarrow> []
      | Some t \<Rightarrow> if t = [] then [] else map (\<lambda>line. ''    ; '' @ line) (splitlines t))"

definition Entry_str :: "entry \<Rightarrow> string" where
  "Entry_str e =
     join [LF] ([[], date e @ '' '' @ payee e] @ note_lines (note e) @ map account_line (accounts e))"

section \<open>Journal\<close>

record LastData =
  last_entry :: entry
  old_position :: nat
  new_position :: nat

text \<open>
  The attributes \<^verbatim>\<open>Journal.__init__\<close> gives an instance. The three sets hold a column
  of the rows of the engine's dump, a missing column being \<^verbatim>\<open>None\<close>.
\<close>

record journal =
  path :: string
  last_data :: "LastData option"
  accounts :: "string option set"
  payees :: "string option set"
  currencies :: "string option set"

text \<open>
  The journal file is not part of the object: a state is the object together with the
  bytes of the file at its path. Another process writing to the file changes
  \<open>ledger_file\<close> and nothing else.
\<close>

record state =
  self :: journal
  ledger_file :: string

subsection \<open>Append and revert\<close>

text \<open>\<^verbatim>\<open>print(entry, file=ledger_file)\<close> on a file opened with \<^verbatim>\<open>"a"\<close>: the text of the
  entry and a line feed, at the end of the file. No attribute of the object is
  assigned.\<close>

definition Journal_append :: "entry \<Rightarrow> state \<Rightarrow> state" where
  "Journal_append e s = s\<lparr>ledger_file := ledger_file s @ Entry_str e @ [LF]\<rparr>"

text \<open>\<^verbatim>\<open>ledger_file.seek(pos)\<close> followed by \<^verbatim>\<open>ledger_file.read()\<close> in text mode.\<close>

definition read_from :: "nat \<Rightarrow> string \<Rightarrow> string" where
  "read_from pos f = universal_newlines (drop pos f)"

definition can_revert :: "state \<Rightarrow> bool" where
  "can_revert s =
     (case last_data (self s) of
        None \<Rightarrow> False
      | Some ld \<Rightarrow>
          if length (ledger_file s) \<noteq> new_position ld then False
          else if Entry_str (last_entry ld) \<noteq> rstrip (read_from (old_position ld) (ledger_file s))
          then False
          else True)"

text \<open>\<^verbatim>\<open>ledger_file.truncate(size)\<close>: a size beyond the end pads the file with zero bytes.\<close>

definition truncate_file :: "nat \<Rightarrow> string \<Rightarrow> string" where
  "truncate_file n f =
     (if n \<le> length f then take n f else f @ replicate (n - length f) (CHR 0x00))"

text \<open>\<^verbatim>\<open>revert\<close> opens the file with \<^verbatim>\<open>"a+"\<close>, so \<^verbatim>\<open>tell()\<close> is the length of the file. It
  returns nothing and assigns no attribute; an exception leaves the state as it is at
  the \<^verbatim>\<open>raise\<close>.\<close>

definition revert :: "state \<Rightarrow> (error + unit) \<times> state" where
  "revert s =
     (case last_data (self s) of
        None \<Rightarrow> (Inl CannotRevert, s)
      | Some ld \<Rightarrow>
          if new_position ld \<noteq> length (ledger_file s) then (Inl CannotRevert, s)
          else if rstrip (read_from (old_position ld) (ledger_file s)) \<noteq> Entry_str (last_entry ld)
          then (Inl CannotRevert, s)
          else (Inr (), s\<lparr>ledger_file := truncate_file (old_position ld) (ledger_file s)\<rparr>))"

subsection \<open>The external engine\<close>

text \<open>
  The \<^verbatim>\<open>ledger\<close> program is a parameter: a function from the argument vector to the
  exit status and the two captured streams. \<^verbatim>\<open>check_output\<close> decodes both in text mode
  and raises \<^verbatim>\<open>CalledProcessError\<close> on a status other than zero.
\<close>

record process_result =
  exit_status :: int
  out_bytes :: string
  err_bytes :: string

type_synonym engine = "string list \<Rightarrow> process_result"

definition Journal_call :: "engine \<Rightarrow> journal \<Rightarrow> string list \<Rightarrow> error + string" where
  "Journal_call eng j args =
     (let argv = [''ledger'', ''-f'', path j] @ args; r = eng argv in
      if exit_status r \<noteq> 0
      then Inl (LedgerCliError
                  \<lparr>cmd = argv, returncode = exit_status r,
                   stdout = universal_newlines (out_bytes r),
                   stderr = universal_newlines (err_bytes r)\<rparr>)
      else Inr (universal_newlines (out_bytes r)))"

text \<open>The functions \<^verbatim>\<open>accounts\<close>, \<^verbatim>\<open>payees\<close> and \<^verbatim>\<open>currencies\<close> of the class.\<close>

datatype query = Accounts | Payees | Currencies

fun query_name :: "query \<Rightarrow> string" where
  "query_name Accounts = ''accounts''"
| "query_name Payees = ''payees''"
| "query_name Currencies = ''currencies''"

fun subcommand :: "query \<Rightarrow> string" where
  "subcommand Accounts = ''accounts''"
| "subcommand Payees = ''payees''"
| "subcommand Currencies = ''commodities''"

definition Journal_query :: "engine \<Rightarrow> journal \<Rightarrow> query \<Rightarrow> error + string" where
  "Journal_query eng j q = Journal_call eng j [subcommand q]"

text \<open>
  \<^verbatim>\<open>_parse\<close> reads the dump with \<^verbatim>\<open>csv.DictReader\<close> and the eight field names. The
  standard library's \<^verbatim>\<open>csv.reader\<close> is a parameter, from the text to its rows; the
  \<^verbatim>\<open>DictReader\<close> skips an empty row and gives a row that is too short \<^verbatim>\<open>None\<close> for the
  fields it lacks. The payee is the third field, the account the fourth, the currency
  the fifth.
\<close>

type_synonym csv_reader = "string \<Rightarrow> string list list"

definition field :: "nat \<Rightarrow> string list \<Rightarrow> string option" where
  "field i row = (if i < length row then Some (row ! i) else None)"

definition add_row :: "journal \<Rightarrow> string list \<Rightarrow> journal" where
  "add_row j row =
     (if row = [] then j
      else j\<lparr>payees := insert (field 2 row) (payees j),
             currencies := insert (field 4 row) (currencies j),
             accounts := insert (field 3 row) (journal.accounts j)\<rparr>)"

definition Journal_parse :: "engine \<Rightarrow> csv_reader \<Rightarrow> journal \<Rightarrow> error + journal" where
  "Journal_parse eng reader j =
     (case Journal_call eng j [''csv''] of
        Inl e \<Rightarrow> Inl e
      | Inr csv_file \<Rightarrow> Inr (foldl add_row j (reader csv_file)))"

definition Journal_init :: "engine \<Rightarrow> csv_reader \<Rightarrow> string \<Rightarrow> LastData option \<Rightarrow> error + journal" where
  "Journal_init eng reader ledger_path ld =
     Journal_parse eng reader
       \<lparr>path = ledger_path, last_data = ld, accounts = {}, payees = {}, currencies = {}\<rparr>"

text \<open>
  Calling \<^verbatim>\<open>j.accounts()\<close> on an instance. Attribute lookup takes the instance's own
  attribute before a function of its class, and \<^verbatim>\<open>__init__\<close> has stored \<^verbatim>\<open>accounts\<close>,
  \<^verbatim>\<open>payees\<close> and \<^verbatim>\<open>currencies\<close> on the instance. None of the objects stored there (a
  string, \<^verbatim>\<open>None\<close>, a tuple, a set) can be called: the call is a \<^verbatim>\<open>TypeError\<close>.
\<close>

datatype pyobj = StrObj string | NoneObj | LastDataObj LastData | SetObj "string option set"

definition instance_dict :: "journal \<Rightarrow> string \<rightharpoonup> pyobj" where
  "instance_dict j =
     map_of [(''path'', StrObj (path j)),
             (''last_data'', (case last_data j of None \<Rightarrow> NoneObj | Some d \<Rightarrow> LastDataObj d)),
             (''accounts'', SetObj (journal.accounts j)),
             (''payees'', SetObj (payees j)),
             (''currencies'', SetObj (currencies j))]"

definition call_query :: "engine \<Rightarrow> journal \<Rightarrow> query \<Rightarrow> error + string" where
  "call_query eng j q =
     (case instance_dict j (query_name q) of
        Some obj \<Rightarrow> Inl TypeError
      | None \<Rightarrow> Journal_query eng j q)"

subsection \<open>Iteration\<close>

text \<open>Iterating a file opened in text mode: the lines of the translated text, each with
  its line feed; a last line without one is a line too.\<close>

fun lines_from :: "string \<Rightarrow> string \<Rightarrow> string list" where
  "lines_from cur [] = (if cur = [] then [] else [cur])"
| "lines_from cur (c # cs) =
     (if c = LF then (cur @ [c]) # lines_from [] cs else lines_from (cur @ [c]) cs)"

definition file_lines :: "string \<Rightarrow> string list" where
  "file_lines f = lines_from [] (universal_newlines f)"

text \<open>
  \<^verbatim>\<open>re.match\<close> of \<^verbatim>\<open>(\d{4}-\d{2}-\d{2}|\d{4}/\d{2}/\d{2})(?: [!*])?\s+(.*)\<close>: both
  alternatives of the date take ten characters. The optional marker is tried first and
  kept when whitespace follows it; otherwise the match goes on without it. \<^verbatim>\<open>\s+\<close>
  takes the whole run of whitespace and \<^verbatim>\<open>.*\<close> the rest up to a line feed, so nothing
  else is ever tried. The result is the two groups.
\<close>

definition is_date :: "string \<Rightarrow> bool" where
  "is_date d =
     (length d = 10
      \<and> list_all isdigit (take 4 d)
      \<and> list_all isdigit (take 2 (drop 5 d))
      \<and> list_all isdigit (take 2 (drop 8 d))
      \<and> (d ! 4 = CHR ''-'' \<and> d ! 7 = CHR ''-'' \<or> d ! 4 = CHR ''/'' \<and> d ! 7 = CHR ''/''))"

definition skip_marker :: "string \<Rightarrow> string" where
  "skip_marker r =
     (if 3 \<le> length r \<and> r ! 0 = CHR '' '' \<and> (r ! 1 = CHR ''!'' \<or> r ! 1 = CHR ''*'') \<and> isspace (r ! 2)
      then drop 2 r else r)"

definition match_header :: "string \<Rightarrow> (string \<times> string) option" where
  "match_header line =
     (if is_date (take 10 line)
      then (let r = skip_marker (drop 10 line) in
            if r \<noteq> [] \<and> isspace (hd r)
            then Some (take 10 line, takeWhile (\<lambda>c. c \<noteq> LF) (dropWhile isspace r))
            else None)
      else None)"

text \<open>\<^verbatim>\<open>re.fullmatch\<close> of \<^verbatim>\<open>\s*;\s*(.*)\<close>: the group is what follows the whitespace after
  the semicolon, and must reach the end without a line feed.\<close>

definition match_note :: "string \<Rightarrow> string option" where
  "match_note line =
     (case dropWhile isspace line of
        [] \<Rightarrow> None
      | c # r \<Rightarrow>
          if c = CHR '';'' \<and> LF \<notin> set (dropWhile isspace r)
          then Some (dropWhile isspace r)
          else None)"

text \<open>
  \<^verbatim>\<open>prepare_entry\<close> returns a dictionary, here the list of its items in order. A failed
  match is \<^verbatim>\<open>None\<close>, and \<^verbatim>\<open>match.group\<close> on it is an \<^verbatim>\<open>AttributeError\<close>; indexing a list
  past its end is an \<^verbatim>\<open>IndexError\<close>.
\<close>

definition prepare_entry :: "string list \<Rightarrow> error + (string \<times> string) list" where
  "prepare_entry entry_lines =
     (case entry_lines of
        [] \<Rightarrow> Inl IndexError
      | first # rest \<Rightarrow>
          (case match_header first of
             None \<Rightarrow> Inl AttributeError
           | Some (d, p) \<Rightarrow>
               (case rest of
                  [] \<Rightarrow> Inl IndexError
                | second # _ \<Rightarrow>
                    Inr [(''body'', join [LF] entry_lines),
                         (''date'', d),
                         (''payee'', p),
                         (''note'', (case match_note second of Some n \<Rightarrow> n | None \<Rightarrow> []))])))"

text \<open>
  The generator \<^verbatim>\<open>Journal.__iter__\<close>, run to its end: the items it yields, in order, and
  the exception that ended it, if one did. \<open>iter_lines entry ls\<close> is the loop with the
  lines \<open>entry\<close> collected so far and the lines \<open>ls\<close> still to read. Nothing follows the
  loop: the lines collected when the file ends are dropped.
\<close>

fun iter_lines :: "string list \<Rightarrow> string list \<Rightarrow> (string \<times> string) list list \<times> error option" where
  "iter_lines entry [] = ([], None)"
| "iter_lines entry (raw # ls) =
     (if strip raw \<noteq> [] then iter_lines (entry @ [strip raw]) ls
      else if entry \<noteq> []
      then (case prepare_entry entry of
              Inl e \<Rightarrow> ([], Some e)
            | Inr item \<Rightarrow> (item # fst (iter_lines [] ls), snd (iter_lines [] ls)))
      else iter_lines entry ls)"

definition Journal_iter :: "state \<Rightarrow> (string \<times> string) list list \<times> error option" where
  "Journal_iter s = iter_lines [] (file_lines (ledger_file s))"

text \<open>The lines the loop holds, not yet yielded, after it has read \<open>ls\<close>.\<close>

fun pending :: "string list \<Rightarrow> string list \<Rightarrow> string list" where
  "pending entry [] = entry"
| "pending entry (raw # ls) =
     (if strip raw \<noteq> [] then pending (entry @ [strip raw]) ls else pending [] ls)"

subsection \<open>Examples\<close>

text \<open>The first entry of the docstring of \<^verbatim>\<open>Entry\<close>, as its constructor stores it, and a
  journal object built with no \<^verbatim>\<open>last_data\<close>.\<close>

definition burger_king :: entry where
  "burger_king =
     \<lparr>payee = ''Burger King'', date = ''2019-02-15'', note = None,
      accounts =
        [\<lparr>name = ''Expenses:Food'', amount = Some ''19.99'', currency = Some ''PLN''\<rparr>,
         \<lparr>name = ''Liabilities:Credit Card'', amount = None, currency = None\<rparr>]\<rparr>"

definition fresh_journal :: journal where
  "fresh_journal =
     \<lparr>path = ''ledger.dat'', last_data = None, accounts = {}, payees = {}, currencies = {}\<rparr>"

text \<open>The empty journal file with that object, and the object a caller builds after
  appending \<open>burger_king\<close> to it, passing as \<^verbatim>\<open>last_data\<close> the entry and the sizes of the
  file before and after.\<close>

definition empty_state :: state where
  "empty_state = \<lparr>self = fresh_journal, ledger_file = []\<rparr>"

definition recorded_journal :: journal where
  "recorded_journal =
     fresh_journal\<lparr>last_data :=
       Some \<lparr>last_entry = burger_king, old_position = 0,
             new_position = length (ledger_file (Journal_append burger_king empty_state))\<rparr>\<rparr>"

text \<open>Three journal files: two entries, each a header and a note, with a blank line
  between them; three blocks of which the second has no date; three blocks of which the
  second is a header alone. The last two end with a blank line.\<close>

definition two_entries :: string where
  "two_entries =
     ''2019-01-01 Alice\<newline>    ; first note\<newline>\<newline>2019/01/02 * Bob\<newline>    ; second note\<newline>''"

definition bad_block_file :: string where
  "bad_block_file =
     ''2019-01-01 Alice\<newline>    ; first note\<newline>\<newline>Bob, no date\<newline>    ; second note\<newline>\<newline>2019-01-03 Carol\<newline>    ; third note\<newline>\<newline>''"


section \<open>Properties of Entry\<close>

lemma format_2f_5: "format_2f ''5'' = Inr ''5.00''"
  by (simp add: format_2f_def strip_zeros_def isdigit_def eval_nat_numeral)

lemma format_2f_500: "format_2f ''5.00'' = Inr ''5.00''"
  by (simp add: format_2f_def strip_zeros_def isdigit_def eval_nat_numeral)

lemma partition_space_5_USD: "partition_space ''5 USD'' = (''5'', ''USD'')"
  by (simp add: partition_space_def)

lemma prepare_account_merged_5_USD:
  "prepare_account b (Merged n (Some ''5 USD'')) =
     Inr \<lparr>name = n, amount = Some ''5.00'', currency = Some ''USD''\<rparr>"
  by (simp add: partition_space_5_USD finally_amount_def format_2f_5)

lemma prepare_account_explicit_500_USD:
  "prepare_account b (Explicit n (Some ''5.00'') (Some ''USD'')) =
     Inr \<lparr>name = n, amount = Some ''5.00'', currency = Some ''USD''\<rparr>"
  by (simp add: finally_amount_def format_2f_500)

text \<open>The loop over the tuples, cut at one of them: the flag of that tuple is set as soon
  as a tuple came before it.\<close>

lemma prepare_accounts_append:
  "prepare_accounts b (pre @ x # post) =
     (case prepare_accounts b pre of
        Inl e \<Rightarrow> Inl e
      | Inr xs \<Rightarrow>
          (case prepare_account (b \<or> pre \<noteq> []) x of
             Inl e \<Rightarrow> Inl e
           | Inr y \<Rightarrow>
               (case prepare_accounts True post of
                  Inl e \<Rightarrow> Inl e
                | Inr ys \<Rightarrow> Inr (xs @ y # ys))))"
  by (induction pre arbitrary: b) (auto split: sum.splits)

lemma normalize_currency_USD:
  "normalize_currency (Some ''USD'') = \<lparr>symbol = Some ''$'', position = Left\<rparr>"
  by (simp add: normalize_currency_def currency_conversions_def)

lemma account_line_5_USD:
  "account_line \<lparr>name = n, amount = Some ''5.00'', currency = Some ''USD''\<rparr> =
     ''    '' @ ljust 34 n @ ''  '' @ rjust 12 ''$5.00''"
  by (simp add: account_line_def normalize_currency_USD format_field_def)

lemma rjust_12_dollar: "rjust 12 ''$5.00'' = ''       $5.00''"
  by (simp add: rjust_def eval_nat_numeral)

lemma account_line_no_amount: "amount a = None \<Longrightarrow> account_line a = ''    '' @ name a"
  by (simp add: account_line_def)

lemma finally_amount_invariant:
  "finally_amount n a c = Inr x \<Longrightarrow> amount x = None \<Longrightarrow> currency x = None"
  by (auto simp: finally_amount_def split: option.splits sum.splits)

lemma prepare_account_invariant:
  "prepare_account b spec = Inr x \<Longrightarrow> amount x = None \<Longrightarrow> currency x = None"
  by (cases "(b, spec)" rule: prepare_account.cases) (auto dest: finally_amount_invariant)

lemma prepare_accounts_invariant:
  "prepare_accounts b specs = Inr xs \<Longrightarrow> x \<in> set xs \<Longrightarrow> amount x = None \<Longrightarrow> currency x = None"
  by (induction specs arbitrary: b xs) (auto split: sum.splits dest: prepare_account_invariant)

text \<open>
  C4, as the code has it. \<open>normalize_currency\<close> maps \<^verbatim>\<open>USD\<close> and \<^verbatim>\<open>$\<close> to the symbol
  \<^verbatim>\<open>$\<close> on the left, the empty string to the empty symbol on the left, and every other
  token to itself on the right.
\<close>

theorem normalize_currency_table:
  "normalize_currency (Some t) =
     (if t = ''USD'' \<or> t = ''$'' then \<lparr>symbol = Some ''$'', position = Left\<rparr>
      else if t = '''' then \<lparr>symbol = Some '''', position = Left\<rparr>
      else \<lparr>symbol = Some t, position = Right\<rparr>)"
  by (simp add: normalize_currency_def currency_conversions_def)

text \<open>C4 as stated fails at the empty string: its symbol is the empty string, not
  \<^verbatim>\<open>$\<close>.\<close>

theorem normalize_currency_empty_counterexample:
  "normalize_currency (Some '''') \<noteq> \<lparr>symbol = Some ''$'', position = Left\<rparr>"
  by (simp add: normalize_currency_def currency_conversions_def)

text \<open>
  C5, as the code has it. For every account name, the two-element form
  \<^verbatim>\<open>(name, "5 USD")\<close> and the three-element form \<^verbatim>\<open>(name, "5.00", "USD")\<close> construct the
  same entry, whatever tuples stand before and after, hence the same text. The
  posting's line is four spaces, the name padded to 34 characters, two spaces, and
  \<^verbatim>\<open>$5.00\<close> right-aligned in 12 characters; the entry with that one posting renders as
  the empty first line, the header, the note lines and this line.
\<close>

theorem merged_equals_explicit:
  "Entry_init p d (pre @ Merged n (Some ''5 USD'') # post) nt =
     Entry_init p d (pre @ Explicit n (Some ''5.00'') (Some ''USD'') # post) nt
   \<and> Entry_init p d [Merged n (Some ''5 USD'')] nt =
       Inr \<lparr>payee = p, date = d, note = nt,
            accounts = [\<lparr>name = n, amount = Some ''5.00'', currency = Some ''USD''\<rparr>]\<rparr>
   \<and> account_line \<lparr>name = n, amount = Some ''5.00'', currency = Some ''USD''\<rparr> =
       ''    '' @ ljust 34 n @ ''  '' @ rjust 12 ''$5.00''
   \<and> rjust 12 ''$5.00'' = ''       $5.00''
   \<and> Entry_str \<lparr>payee = p, date = d, note = nt,
                accounts = [\<lparr>name = n, amount = Some ''5.00'', currency = Some ''USD''\<rparr>]\<rparr> =
       join [LF] ([[], d @ '' '' @ p] @ note_lines nt
                  @ [''    '' @ ljust 34 n @ ''  '' @ rjust 12 ''$5.00''])"
proof -
  have "Entry_init p d (pre @ Merged n (Some ''5 USD'') # post) nt =
        Entry_init p d (pre @ Explicit n (Some ''5.00'') (Some ''USD'') # post) nt"
    by (simp only: Entry_init_def prepare_accounts_append prepare_account_merged_5_USD
          prepare_account_explicit_500_USD)
  moreover have "Entry_init p d [Merged n (Some ''5 USD'')] nt =
       Inr \<lparr>payee = p, date = d, note = nt,
            accounts = [\<lparr>name = n, amount = Some ''5.00'', currency = Some ''USD''\<rparr>]\<rparr>"
    by (simp add: Entry_init_def partition_space_5_USD finally_amount_def format_2f_5)
  moreover have "Entry_str \<lparr>payee = p, date = d, note = nt,
                accounts = [\<lparr>name = n, amount = Some ''5.00'', currency = Some ''USD''\<rparr>]\<rparr> =
       join [LF] ([[], d @ '' '' @ p] @ note_lines nt
                  @ [''    '' @ ljust 34 n @ ''  '' @ rjust 12 ''$5.00''])"
    by (simp add: Entry_str_def account_line_5_USD)
  ultimately show ?thesis
    using account_line_5_USD [of n] rjust_12_dollar by blast
qed

text \<open>C5 as stated leaves out the two spaces between the padded name and the amount's
  field: the line of the docstring's posting has 52 characters, the stated one 50.\<close>

theorem posting_line_counterexample:
  "Entry_init ''McDonalds'' ''2019-02-16'' [Merged ''Expenses:Food'' (Some ''5 USD'')] None =
     Inr \<lparr>payee = ''McDonalds'', date = ''2019-02-16'', note = None,
          accounts = [\<lparr>name = ''Expenses:Food'', amount = Some ''5.00'', currency = Some ''USD''\<rparr>]\<rparr>
   \<and> account_line \<lparr>name = ''Expenses:Food'', amount = Some ''5.00'', currency = Some ''USD''\<rparr> =
       ''    Expenses:Food                              $5.00''
   \<and> account_line \<lparr>name = ''Expenses:Food'', amount = Some ''5.00'', currency = Some ''USD''\<rparr> \<noteq>
       ''    '' @ ljust 34 ''Expenses:Food'' @ rjust 12 ''$5.00''"
  by (simp add: Entry_init_def partition_space_5_USD finally_amount_def format_2f_5 account_line_5_USD ljust_def
        rjust_def eval_nat_numeral)

text \<open>
  C6. A tuple with only a name, and a tuple of three whose amount is \<^verbatim>\<open>None\<close> whatever
  its currency, give the posting with no amount and no currency; the line of such a
  posting is four spaces and the name. And in every entry the constructor returns, a
  posting without an amount has no currency and renders that way. (A tuple of two
  whose second element is \<^verbatim>\<open>None\<close> constructs nothing: \<open>prepare_account\<close> raises.)
\<close>

theorem no_currency_without_amount:
  "prepare_account b (Bare n) = Inr \<lparr>name = n, amount = None, currency = None\<rparr>
   \<and> prepare_account b (Explicit n None c) = Inr \<lparr>name = n, amount = None, currency = None\<rparr>
   \<and> account_line \<lparr>name = n, amount = None, currency = None\<rparr> = ''    '' @ n
   \<and> (Entry_init p d specs nt = Inr e \<and> a \<in> set (entry.accounts e) \<and> amount a = None
        \<longrightarrow> currency a = None \<and> account_line a = ''    '' @ name a)"
proof -
  have "currency a = None \<and> account_line a = ''    '' @ name a"
    if "Entry_init p d specs nt = Inr e" and "a \<in> set (entry.accounts e)" and "amount a = None"
  proof -
    from that(1) have "prepare_accounts False specs = Inr (entry.accounts e)"
      by (auto simp: Entry_init_def split: sum.splits)
    then show ?thesis
      using that(2,3) by (simp add: prepare_accounts_invariant account_line_no_amount)
  qed
  then show ?thesis
    by (simp add: finally_amount_def account_line_no_amount)
qed

theorem no_currency_without_amount_witness:
  "Entry_init ''Burger King'' ''2019-02-15''
     [Merged ''Expenses:Food'' (Some ''19.99 PLN''),
      Explicit ''Liabilities:Credit Card'' None (Some ''USD'')]
     None = Inr burger_king
   \<and> \<lparr>name = ''Liabilities:Credit Card'', amount = None, currency = None\<rparr> \<in> set (entry.accounts burger_king)
   \<and> account_line \<lparr>name = ''Liabilities:Credit Card'', amount = None, currency = None\<rparr> =
       ''    Liabilities:Credit Card''"
proof -
  have built: "Entry_init ''Burger King'' ''2019-02-15''
     [Merged ''Expenses:Food'' (Some ''19.99 PLN''),
      Explicit ''Liabilities:Credit Card'' None (Some ''USD'')]
     None = Inr burger_king"
    by (simp add: Entry_init_def finally_amount_def partition_space_def format_2f_def
          strip_zeros_def isdigit_def burger_king_def eval_nat_numeral)
  have member: "\<lparr>name = ''Liabilities:Credit Card'', amount = None, currency = None\<rparr>
      \<in> set (entry.accounts burger_king)"
    by (simp add: burger_king_def)
  show ?thesis
    using built member
      no_currency_without_amount [of False "''Liabilities:Credit Card''" "Some ''USD''"
        "''Burger King''" "''2019-02-15''"
        "[Merged ''Expenses:Food'' (Some ''19.99 PLN''),
          Explicit ''Liabilities:Credit Card'' None (Some ''USD'')]"
        None burger_king
        "\<lparr>name = ''Liabilities:Credit Card'', amount = None, currency = None\<rparr>"]
    by simp
qed

section \<open>Properties of append and revert\<close>

lemma universal_newlines_no_CR: "CR \<notin> set s \<Longrightarrow> universal_newlines s = s"
  by (induction s rule: universal_newlines.induct) auto

lemma universal_newlines_has_no_CR: "CR \<notin> set (universal_newlines s)"
  by (induction s rule: universal_newlines.induct) (auto simp: CR_def LF_def)

lemma isspace_LF: "isspace LF"
  by (simp add: isspace_def LF_def)

lemma rstrip_snoc_LF: "s \<noteq> [] \<Longrightarrow> \<not> isspace (last s) \<Longrightarrow> rstrip (s @ [LF]) = s"
  by (cases s rule: rev_cases) (auto simp: rstrip_def isspace_LF)

lemma rstrip_last: "rstrip s \<noteq> [] \<Longrightarrow> \<not> isspace (last (rstrip s))"
proof -
  assume kept: "rstrip s \<noteq> []"
  then have "dropWhile isspace (rev s) \<noteq> []" by (simp add: rstrip_def)
  then have "\<not> isspace (hd (dropWhile isspace (rev s)))" by (rule hd_dropWhile)
  moreover have "last (rstrip s) = hd (dropWhile isspace (rev s))"
    using kept by (simp add: rstrip_def last_rev)
  ultimately show ?thesis by simp
qed

lemma set_rstrip: "set (rstrip s) \<subseteq> set s"
  using set_dropWhileD [of _ isspace "rev s"] by (auto simp: rstrip_def)

lemma Entry_str_nonempty: "Entry_str e \<noteq> []"
  by (simp add: Entry_str_def)

text \<open>What \<open>can_revert\<close> and \<open>revert\<close> read back right after an append is the entry's
  text exactly when that text has no carriage return (which reading turns into a line
  feed) and does not end in whitespace (which \<^verbatim>\<open>rstrip\<close> removes from the file's side
  only).\<close>

lemma read_back:
  assumes "CR \<notin> set (Entry_str e)" and "\<not> isspace (last (Entry_str e))"
  shows "rstrip (read_from (length f) (f @ Entry_str e @ [LF])) = Entry_str e"
proof -
  have "CR \<notin> set (Entry_str e @ [LF])" using assms(1) by (simp add: CR_def LF_def)
  then have "read_from (length f) (f @ Entry_str e @ [LF]) = Entry_str e @ [LF]"
    by (simp add: read_from_def universal_newlines_no_CR)
  then show ?thesis using assms(2) by (simp add: rstrip_snoc_LF Entry_str_nonempty)
qed

lemma read_back_only_if:
  assumes "rstrip (read_from (length f) (f @ Entry_str e @ [LF])) = Entry_str e"
  shows "CR \<notin> set (Entry_str e) \<and> \<not> isspace (last (Entry_str e))"
proof
  have "set (rstrip (read_from (length f) (f @ Entry_str e @ [LF])))
          \<subseteq> set (universal_newlines (Entry_str e @ [LF]))"
    using set_rstrip by (simp add: read_from_def)
  then show "CR \<notin> set (Entry_str e)"
    using assms universal_newlines_has_no_CR by auto
  show "\<not> isspace (last (Entry_str e))"
    using rstrip_last [of "read_from (length f) (f @ Entry_str e @ [LF])"] assms
      Entry_str_nonempty by simp
qed

lemma burger_king_str:
  "Entry_str burger_king =
     ''\<newline>2019-02-15 Burger King\<newline>    Expenses:Food                              19.99 PLN\<newline>    Liabilities:Credit Card''"
  by (simp add: Entry_str_def burger_king_def note_lines_def account_line_def
        normalize_currency_def currency_conversions_def format_field_def ljust_def rjust_def
        LF_def eval_nat_numeral)

text \<open>
  C1, as the code has it. \<open>Journal_append\<close> writes the text of the entry and a line feed
  after the bytes the file had, which stay as they were, and leaves the object as it
  is: \<^verbatim>\<open>last_data\<close> keeps the value the constructor was given.
\<close>

theorem append_writes_entry:
  "ledger_file (Journal_append e s) = ledger_file s @ Entry_str e @ [LF]
   \<and> take (length (ledger_file s)) (ledger_file (Journal_append e s)) = ledger_file s
   \<and> self (Journal_append e s) = self s
   \<and> last_data (self (Journal_append e s)) = last_data (self s)"
  by (simp add: Journal_append_def)

text \<open>C1 as stated fails: after appending to the empty file through an object built
  without \<^verbatim>\<open>last_data\<close>, \<^verbatim>\<open>last_data\<close> is not the record of that append.\<close>

theorem append_records_nothing_counterexample:
  "last_data (self (Journal_append burger_king \<lparr>self = fresh_journal, ledger_file = []\<rparr>)) \<noteq>
     Some \<lparr>last_entry = burger_king, old_position = 0,
           new_position =
             length (ledger_file (Journal_append burger_king \<lparr>self = fresh_journal, ledger_file = []\<rparr>))\<rparr>"
  by (simp add: Journal_append_def fresh_journal_def)

text \<open>C2 as stated fails: after that append, \<open>can_revert\<close> is false.\<close>

theorem append_then_can_revert_counterexample:
  "\<not> can_revert (Journal_append burger_king \<lparr>self = fresh_journal, ledger_file = []\<rparr>)"
  by (simp add: Journal_append_def fresh_journal_def can_revert_def)

text \<open>
  C2, as the code has it. Let \<open>j\<close> be a journal object whose \<^verbatim>\<open>last_data\<close> the caller
  has set to the entry and the sizes of the file before and after the append, for an
  entry whose text is ASCII, has no carriage return and does not end in whitespace.
  Then, with nothing else written to the file, \<open>can_revert\<close> is true, \<open>revert\<close> succeeds
  and leaves the file with the bytes it had before the append, and a second \<open>revert\<close>
  raises \<open>CannotRevert\<close> and changes nothing. This holds from every ASCII file content,
  the empty file included.
\<close>

theorem revert_round_trip:
  assumes "last_data j =
             Some \<lparr>last_entry = e, old_position = length (ledger_file s0),
                   new_position = length (ledger_file (Journal_append e s0))\<rparr>"
      and "CR \<notin> set (Entry_str e)"
      and "\<not> isspace (last (Entry_str e))"
      and "list_all isascii (Entry_str e)"
      and "list_all isascii (ledger_file s0)"
  shows "can_revert ((Journal_append e s0)\<lparr>self := j\<rparr>)
         \<and> revert ((Journal_append e s0)\<lparr>self := j\<rparr>) = (Inr (), s0\<lparr>self := j\<rparr>)
         \<and> revert (s0\<lparr>self := j\<rparr>) = (Inl CannotRevert, s0\<lparr>self := j\<rparr>)"
proof -
  have reread: "rstrip (read_from (length (ledger_file s0)) (ledger_file s0 @ Entry_str e @ [LF]))
                = Entry_str e"
    using assms(2,3) by (rule read_back)
  have "can_revert ((Journal_append e s0)\<lparr>self := j\<rparr>)"
    using assms(1) reread by (simp add: can_revert_def Journal_append_def)
  moreover have "revert ((Journal_append e s0)\<lparr>self := j\<rparr>) = (Inr (), s0\<lparr>self := j\<rparr>)"
    using assms(1) reread by (simp add: revert_def Journal_append_def truncate_file_def)
  moreover have "revert (s0\<lparr>self := j\<rparr>) = (Inl CannotRevert, s0\<lparr>self := j\<rparr>)"
    using assms(1) by (simp add: revert_def Journal_append_def)
  ultimately show ?thesis by simp
qed

theorem revert_round_trip_witness:
  "can_revert ((Journal_append burger_king empty_state)\<lparr>self := recorded_journal\<rparr>)
   \<and> revert ((Journal_append burger_king empty_state)\<lparr>self := recorded_journal\<rparr>)
       = (Inr (), \<lparr>self = recorded_journal, ledger_file = []\<rparr>)
   \<and> revert \<lparr>self = recorded_journal, ledger_file = []\<rparr>
       = (Inl CannotRevert, \<lparr>self = recorded_journal, ledger_file = []\<rparr>)"
proof -
  have recorded: "last_data recorded_journal =
      Some \<lparr>last_entry = burger_king, old_position = length (ledger_file empty_state),
            new_position = length (ledger_file (Journal_append burger_king empty_state))\<rparr>"
    by (simp add: recorded_journal_def empty_state_def)
  have no_cr: "CR \<notin> set (Entry_str burger_king)"
    by (simp add: burger_king_str CR_def)
  have no_space: "\<not> isspace (last (Entry_str burger_king))"
    by (simp add: burger_king_str isspace_def)
  have text_ascii: "list_all isascii (Entry_str burger_king)"
    by (simp add: burger_king_str isascii_def)
  have file_ascii: "list_all isascii (ledger_file empty_state)"
    by (simp add: empty_state_def)
  have "empty_state\<lparr>self := recorded_journal\<rparr> = \<lparr>self = recorded_journal, ledger_file = []\<rparr>"
    by (simp add: empty_state_def)
  then show ?thesis
    using revert_round_trip [OF recorded no_cr no_space text_ascii file_ascii] by simp
qed

text \<open>The two conditions on the entry's text are exactly what \<open>can_revert\<close> needs after
  an append recorded that way.\<close>

lemma can_revert_after_append_iff:
  assumes "last_data j =
             Some \<lparr>last_entry = e, old_position = length (ledger_file s0),
                   new_position = length (ledger_file (Journal_append e s0))\<rparr>"
  shows "can_revert ((Journal_append e s0)\<lparr>self := j\<rparr>)
           \<longleftrightarrow> CR \<notin> set (Entry_str e) \<and> \<not> isspace (last (Entry_str e))"
proof -
  have "can_revert ((Journal_append e s0)\<lparr>self := j\<rparr>)
          \<longleftrightarrow> rstrip (read_from (length (ledger_file s0)) (ledger_file s0 @ Entry_str e @ [LF]))
                = Entry_str e"
    using assms by (auto simp: can_revert_def Journal_append_def)
  then show ?thesis
    using read_back [of e "ledger_file s0"] read_back_only_if [of "ledger_file s0" e] by blast
qed

text \<open>
  C3. When \<^verbatim>\<open>last_data\<close> is recorded and its \<^verbatim>\<open>new_position\<close> is the size the file had
  after the append, and another writer has since appended at least one byte, then
  \<open>can_revert\<close> is false and \<open>revert\<close> raises \<open>CannotRevert\<close>, leaving the file and the
  object as they are.
\<close>

theorem tamper_detected:
  assumes "last_data (self s) = Some ld"
      and "new_position ld = length (ledger_file s)"
      and "extra \<noteq> []"
  shows "\<not> can_revert (s\<lparr>ledger_file := ledger_file s @ extra\<rparr>)
         \<and> revert (s\<lparr>ledger_file := ledger_file s @ extra\<rparr>)
             = (Inl CannotRevert, s\<lparr>ledger_file := ledger_file s @ extra\<rparr>)"
  using assms by (simp add: can_revert_def revert_def)

theorem tamper_detected_witness:
  "\<not> can_revert \<lparr>self = recorded_journal,
                  ledger_file = ledger_file (Journal_append burger_king empty_state) @ ''x''\<rparr>
   \<and> revert \<lparr>self = recorded_journal,
              ledger_file = ledger_file (Journal_append burger_king empty_state) @ ''x''\<rparr>
       = (Inl CannotRevert,
          \<lparr>self = recorded_journal,
           ledger_file = ledger_file (Journal_append burger_king empty_state) @ ''x''\<rparr>)"
  using tamper_detected
    [of "\<lparr>self = recorded_journal, ledger_file = ledger_file (Journal_append burger_king empty_state)\<rparr>"
        "\<lparr>last_entry = burger_king, old_position = 0,
          new_position = length (ledger_file (Journal_append burger_king empty_state))\<rparr>"
        "''x''"]
  by (simp add: recorded_journal_def)

section \<open>Properties of the queries\<close>

text \<open>The functions of the class do what their names say: they run the engine with
  their subcommand and return its output, or raise \<open>LedgerCliError\<close> whose cause holds
  the captured error text.\<close>

lemma Journal_query_output:
  "exit_status (eng [''ledger'', ''-f'', path j, subcommand q]) = 0 \<Longrightarrow>
     Journal_query eng j q =
       Inr (universal_newlines (out_bytes (eng [''ledger'', ''-f'', path j, subcommand q])))"
  by (simp add: Journal_query_def Journal_call_def Let_def)

lemma Journal_query_error:
  "exit_status (eng [''ledger'', ''-f'', path j, subcommand q]) \<noteq> 0 \<Longrightarrow>
     \<exists>cause. Journal_query eng j q = Inl (LedgerCliError cause)
       \<and> stderr cause = universal_newlines (err_bytes (eng [''ledger'', ''-f'', path j, subcommand q]))"
  by (simp add: Journal_query_def Journal_call_def Let_def)

lemma foldl_add_row_keeps:
  "path (foldl add_row j rows) = path j \<and> last_data (foldl add_row j rows) = last_data j"
  by (induction rows arbitrary: j) (simp_all add: add_row_def)

lemma Journal_init_keeps:
  "Journal_init eng reader p ld = Inr j \<Longrightarrow> path j = p \<and> last_data j = ld"
  by (auto simp: Journal_init_def Journal_parse_def foldl_add_row_keeps split: sum.splits)

text \<open>
  C9, on the code. On every journal object, and so on every one \<open>Journal_init\<close> returns,
  the calls \<^verbatim>\<open>j.accounts()\<close>, \<^verbatim>\<open>j.payees()\<close> and \<^verbatim>\<open>j.currencies()\<close> reach the set stored
  under that name by \<^verbatim>\<open>__init__\<close>, not the function of the class: each is a
  \<^verbatim>\<open>TypeError\<close>, whatever the engine would have answered.
\<close>

theorem query_call_not_callable:
  "call_query eng j q = Inl TypeError"
  by (cases q) (simp_all add: call_query_def instance_dict_def)

section \<open>Properties of iteration\<close>

text \<open>The loop over a list of lines cut in two: the second part starts from the lines
  the first left collected, unless the first part ended in an exception.\<close>

lemma iter_lines_append:
  "iter_lines ent (xs @ ys) =
     (case snd (iter_lines ent xs) of
        Some e \<Rightarrow> iter_lines ent xs
      | None \<Rightarrow> (fst (iter_lines ent xs) @ fst (iter_lines (pending ent xs) ys),
                 snd (iter_lines (pending ent xs) ys)))"
proof (induction xs arbitrary: ent)
  case Nil
  then show ?case by simp
next
  case (Cons raw xs)
  show ?case
  proof (cases "strip raw \<noteq> []")
    case True
    then show ?thesis using Cons.IH [of "ent @ [strip raw]"] by (simp split: option.splits)
  next
    case blank: False
    show ?thesis
    proof (cases "ent = []")
      case True
      then show ?thesis using blank Cons.IH [of "[]"] by (simp split: option.splits)
    next
      case False
      then show ?thesis using blank Cons.IH [of "[]"]
        by (cases "prepare_entry ent") (simp_all split: option.splits)
    qed
  qed
qed

lemma iter_lines_block:
  "list_all (\<lambda>r. strip r \<noteq> []) block \<Longrightarrow>
     iter_lines ent (block @ rest) = iter_lines (ent @ map strip block) rest"
  by (induction block arbitrary: ent) auto

lemma iter_lines_after:
  assumes "iter_lines [] pre = (items, None)" and "pending [] pre = []"
  shows "iter_lines [] (pre @ rest) = (items @ fst (iter_lines [] rest), snd (iter_lines [] rest))"
  using assms by (simp add: iter_lines_append)


lemma prepare_entry_bad_header:
  "block \<noteq> [] \<Longrightarrow> match_header (hd block) = None \<Longrightarrow> prepare_entry block = Inl AttributeError"
  by (cases block) (simp_all add: prepare_entry_def)


text \<open>
  C7, on the code. The file \<open>two_entries\<close> holds two entries with a blank line between
  them, each a header line and a note line, and ends with the line feed of the last
  note. Iteration yields the first entry only: the second is still collected when the
  file ends, and nothing yields it.
\<close>

theorem last_block_not_yielded:
  "Journal_iter \<lparr>self = fresh_journal, ledger_file = two_entries\<rparr> =
     ([[(''body'', ''2019-01-01 Alice\<newline>; first note''), (''date'', ''2019-01-01''),
        (''payee'', ''Alice''), (''note'', ''first note'')]],
      None)"
  by code_simp

text \<open>With one more blank line at the end of the same file, both entries are yielded,
  with the date, payee and note of their lines. The file that \<open>Journal_append\<close> writes
  for \<open>burger_king\<close> does not end with a blank line, and that entry is not yielded.\<close>

lemma blank_line_ends_last_block:
  "Journal_iter \<lparr>self = fresh_journal, ledger_file = two_entries @ [LF]\<rparr> =
     ([[(''body'', ''2019-01-01 Alice\<newline>; first note''), (''date'', ''2019-01-01''),
        (''payee'', ''Alice''), (''note'', ''first note'')],
       [(''body'', ''2019/01/02 * Bob\<newline>; second note''), (''date'', ''2019/01/02''),
        (''payee'', ''Bob''), (''note'', ''second note'')]],
      None)"
  by code_simp

lemma appended_entry_not_yielded:
  "Journal_iter (Journal_append burger_king empty_state) = ([], None)"
  by code_simp

text \<open>
  C8, as the code has it. Let the file be ASCII text and its lines be \<open>pre\<close>, read
  without an exception and ending between two blocks, then a block of non-blank lines
  whose first line does not match the header pattern, then a blank line, then any
  lines \<open>post\<close>. Iteration yields the items of \<open>pre\<close> and ends in \<open>AttributeError\<close> at the
  blank line: no block of \<open>post\<close> is yielded.
\<close>

theorem malformed_block_aborts:
  assumes "list_all isascii (ledger_file s)"
      and "file_lines (ledger_file s) = pre @ block @ blank # post"
      and "iter_lines [] pre = (items, None)" and "pending [] pre = []"
      and "block \<noteq> []" and "list_all (\<lambda>r. strip r \<noteq> []) block"
      and "match_header (strip (hd block)) = None"
      and "strip blank = []"
  shows "Journal_iter s = (items, Some AttributeError)"
proof -
  have "prepare_entry (map strip block) = Inl AttributeError"
    using assms(5,7) by (simp add: prepare_entry_bad_header hd_map)
  then have "iter_lines [] (block @ blank # post) = ([], Some AttributeError)"
    using assms(5,6,8) by (simp add: iter_lines_block)
  then show ?thesis
    using assms(2) iter_lines_after [OF assms(3,4), of "block @ blank # post"]
    by (simp add: Journal_iter_def)
qed

theorem malformed_block_aborts_witness:
  "file_lines bad_block_file =
     [''2019-01-01 Alice\<newline>'', ''    ; first note\<newline>'', ''\<newline>'']
     @ [''Bob, no date\<newline>'', ''    ; second note\<newline>'']
     @ ''\<newline>'' # [''2019-01-03 Carol\<newline>'', ''    ; third note\<newline>'', ''\<newline>'']
   \<and> match_header ''Bob, no date'' = None
   \<and> Journal_iter \<lparr>self = fresh_journal, ledger_file = bad_block_file\<rparr> =
       ([[(''body'', ''2019-01-01 Alice\<newline>; first note''), (''date'', ''2019-01-01''),
          (''payee'', ''Alice''), (''note'', ''first note'')]],
        Some AttributeError)"
proof -
  have split: "file_lines (ledger_file \<lparr>self = fresh_journal, ledger_file = bad_block_file\<rparr>) =
     [''2019-01-01 Alice\<newline>'', ''    ; first note\<newline>'', ''\<newline>'']
     @ [''Bob, no date\<newline>'', ''    ; second note\<newline>'']
     @ ''\<newline>'' # [''2019-01-03 Carol\<newline>'', ''    ; third note\<newline>'', ''\<newline>'']"
    by code_simp
  have before: "iter_lines [] [''2019-01-01 Alice\<newline>'', ''    ; first note\<newline>'', ''\<newline>''] =
     ([[(''body'', ''2019-01-01 Alice\<newline>; first note''), (''date'', ''2019-01-01''),
        (''payee'', ''Alice''), (''note'', ''first note'')]],
      None)"
    by code_simp
  have boundary: "pending [] [''2019-01-01 Alice\<newline>'', ''    ; first note\<newline>'', ''\<newline>''] = []"
    by code_simp
  have nonempty: "[''Bob, no date\<newline>'', ''    ; second note\<newline>''] \<noteq> []"
    by simp
  have nonblank: "list_all (\<lambda>r. strip r \<noteq> []) [''Bob, no date\<newline>'', ''    ; second note\<newline>'']"
    by code_simp
  have bad: "match_header (strip (hd [''Bob, no date\<newline>'', ''    ; second note\<newline>''])) = None"
    by code_simp
  have blank: "strip ''\<newline>'' = []"
    by code_simp
  have file_ascii:
    "list_all isascii (ledger_file \<lparr>self = fresh_journal, ledger_file = bad_block_file\<rparr>)"
    by code_simp
  have "match_header ''Bob, no date'' = None"
    by code_simp
  then show ?thesis
    using split
      malformed_block_aborts [OF file_ascii split before boundary nonempty nonblank bad blank]
    by simp
qed

text \<open>C8 as stated fails on \<open>bad_block_file\<close>: the exception is an \<open>AttributeError\<close>, and
  the third block, which is well formed, is not among the items yielded.\<close>

theorem malformed_block_counterexample:
  "Journal_iter \<lparr>self = fresh_journal, ledger_file = bad_block_file\<rparr> =
     ([[(''body'', ''2019-01-01 Alice\<newline>; first note''), (''date'', ''2019-01-01''),
        (''payee'', ''Alice''), (''note'', ''first note'')]],
      Some AttributeError)
   \<and> prepare_entry [''2019-01-03 Carol'', ''; third note''] =
       Inr [(''body'', ''2019-01-03 Carol\<newline>; third note''), (''date'', ''2019-01-03''),
            (''payee'', ''Carol''), (''note'', ''third note'')]
   \<and> [(''body'', ''2019-01-03 Carol\<newline>; third note''), (''date'', ''2019-01-03''),
       (''payee'', ''Carol''), (''note'', ''third note'')]
       \<notin> set (fst (Journal_iter \<lparr>self = fresh_journal, ledger_file = bad_block_file\<rparr>))"
  by code_simp



end
